theory Spec2Isabelle
  imports Complex_Main "HOL-Library.Word"
begin

section \<open>The AI-assisted analysis gateway of \<^verbatim>\<open>backend/app/main.py\<close>\<close>

text \<open>
  The class \<^verbatim>\<open>AIService\<close> has four methods, one per task: \<^verbatim>\<open>analyze_contract\<close>,
  \<^verbatim>\<open>generate_contract_draft\<close>, \<^verbatim>\<open>assess_legal_risk\<close> and \<^verbatim>\<open>legal_research\<close>. Each builds a
  prompt, awaits \<^verbatim>\<open>openai.ChatCompletion.acreate\<close>, reads the first completion and (all but
  the drafting task) hands it to \<^verbatim>\<open>json.loads\<close>; the whole body sits in one
  \<^verbatim>\<open>try ... except Exception\<close> whose handler logs and returns a fixed value.
  Two of the HTTP routes that call these methods are modelled as well.
\<close>

subsection \<open>Python values and exceptions\<close>

text \<open>
  \<^verbatim>\<open>json.loads\<close> returns an arbitrary Python object built from \<^verbatim>\<open>None\<close>, booleans, integers,
  floats, strings, lists and dictionaries with string keys. A float is kept as the 64 bits
  of its IEEE 754 representation; the code under study never computes with one. A
  dictionary is an association list in insertion order.
\<close>

type_synonym py_float = "64 word"

datatype py_value =
    PyNone
  | PyBool bool
  | PyInt int
  | PyFloat py_float
  | PyStr string
  | PyList "py_value list"
  | PyDict "(string \<times> py_value) list"

text \<open>
  A raised object carries its class name and the text that \<^verbatim>\<open>str(e)\<close> yields. Whether it
  is an instance of \<^verbatim>\<open>Exception\<close> decides whether \<^verbatim>\<open>except Exception\<close> catches it, so
  the outcome of a call says which: \<open>Return\<close> for a value, \<open>Raise\<close> for a raised instance
  of \<^verbatim>\<open>Exception\<close>, \<open>Abort\<close> for a raised object that is not one
  (\<^verbatim>\<open>asyncio.CancelledError\<close> thrown into a suspended call, \<^verbatim>\<open>KeyboardInterrupt\<close>,
  \<^verbatim>\<open>SystemExit\<close>), which no handler of the source catches.
\<close>

datatype py_exn = PyExn (exn_class: string) (exn_str: string)

datatype ('e, 'a) outcome = Return 'a | Raise 'e | Abort py_exn

definition then_do :: "('e, 'a) outcome \<Rightarrow> ('a \<Rightarrow> ('e, 'b) outcome) \<Rightarrow> ('e, 'b) outcome" where
  "then_do r f = (case r of Return x \<Rightarrow> f x | Raise e \<Rightarrow> Raise e | Abort b \<Rightarrow> Abort b)"

text \<open>A library function that returns or raises an instance of \<^verbatim>\<open>Exception\<close>.\<close>

definition of_sum :: "'e + 'a \<Rightarrow> ('e, 'a) outcome" where
  "of_sum r = (case r of Inl e \<Rightarrow> Raise e | Inr x \<Rightarrow> Return x)"

subsection \<open>The request sent to the provider\<close>

record chat_message =
  role :: string
  content :: string

record chat_request =
  model :: string
  messages :: "chat_message list"
  temperature :: rat

subsection \<open>External collaborators and the state\<close>

text \<open>
  Everything the gateway reaches outside itself is a field of the environment:
  \<^item> \<open>OPENAI_MODEL\<close> is \<^verbatim>\<open>settings.OPENAI_MODEL\<close>;
  \<^item> \<open>chat_completion\<close> is the model invoker, that is
    \<^verbatim>\<open>(await openai.ChatCompletion.acreate(...)).choices[0].message.content\<close>:
    \<open>Return (Some s)\<close> is the text of the first completion, \<open>Return None\<close> a first
    completion whose content is \<^verbatim>\<open>None\<close>, \<open>Raise e\<close> an exception raised by the call or
    by the selection of its first completion, and \<open>Abort b\<close> the awaited call left by an
    object that is not an \<^verbatim>\<open>Exception\<close>, such as the cancellation of the task;
  \<^item> \<open>json_loads\<close> is \<^verbatim>\<open>json.loads\<close> on a string, which returns the decoded object or
    raises;
  \<^item> \<open>json_dumps\<close> is \<^verbatim>\<open>json.dumps(_, indent=2)\<close> on a value that came from a request body;
  \<^item> \<open>lax_int\<close> and \<open>validation_error_str\<close> belong to the response model of the
    analyze-contract route, see below.
\<close>

record environment =
  OPENAI_MODEL :: string
  chat_completion :: "chat_request \<Rightarrow> (py_exn, string option) outcome"
  json_loads :: "string \<Rightarrow> py_exn + py_value"
  json_dumps :: "py_value \<Rightarrow> string"
  lax_int :: "py_value \<Rightarrow> int option"
  validation_error_str :: "(string \<times> py_value) list \<Rightarrow> string"

text \<open>
  The state that outlives a call: the lines written by \<^verbatim>\<open>logger.error\<close> and the requests
  sent to the provider, both oldest first.
\<close>

record world =
  error_log :: "string list"
  requests :: "chat_request list"

definition logger_error :: "string \<Rightarrow> world \<Rightarrow> world" where
  "logger_error msg w = w\<lparr>error_log := error_log w @ [msg]\<rparr>"

definition send :: "chat_request \<Rightarrow> world \<Rightarrow> world" where
  "send req w = w\<lparr>requests := requests w @ [req]\<rparr>"

subsection \<open>Prompts\<close>

definition nl :: string where
  "nl = [CHR 0x0A]"

definition indent :: string where
  "indent = replicate 12 (CHR '' '')"

text \<open>
  A triple-quoted f-string of the source: a newline, the lines (each indented by twelve
  spaces in the source file), and the indentation before the closing quotes.
\<close>

definition template :: "string list \<Rightarrow> string" where
  "template ls = nl @ concat (map (\<lambda>l. indent @ l @ nl) ls) @ indent"

definition analyze_contract_prompt :: "string \<Rightarrow> string" where
  \<open>analyze_contract_prompt contract_text = template
    [''Analyze the following contract for potential risks and key terms:'',
     '''',
     ''Contract Text:'',
     contract_text,
     '''',
     ''Please provide:'',
     ''1. Risk Assessment (score 1-10)'',
     ''2. Key Terms Identified'',
     ''3. Potential Issues'',
     ''4. Recommendations'',
     ''5. Missing Standard Clauses'',
     '''',
     ''Format response as JSON with the following structure:'',
     ''{'',
     ''    "risk_score": <number>,'',
     ''    "key_terms": ["term1", "term2"],'',
     ''    "potential_issues": ["issue1", "issue2"],'',
     ''    "recommendations": ["rec1", "rec2"],'',
     ''    "missing_clauses": ["clause1", "clause2"]'',
     ''}'']\<close>

text \<open>\<^verbatim>\<open>', '.join(parties)\<close>\<close>

fun join_comma :: "string list \<Rightarrow> string" where
  "join_comma [] = []"
| "join_comma [p] = p"
| "join_comma (p # ps) = p @ '', '' @ join_comma ps"

definition generate_contract_draft_prompt ::
  "environment \<Rightarrow> string \<Rightarrow> string list \<Rightarrow> (string \<times> py_value) list \<Rightarrow> string" where
  "generate_contract_draft_prompt env contract_type parties key_terms = template
    [''Generate a professional '' @ contract_type @ '' contract draft with the following details:'',
     '''',
     ''Parties: '' @ join_comma parties,
     ''Key Terms: '' @ json_dumps env (PyDict key_terms),
     '''',
     ''Include standard clauses for:'',
     ''- Definitions'',
     ''- Scope of Work/Services'',
     ''- Payment Terms'',
     ''- Termination'',
     ''- Confidentiality'',
     ''- Governing Law'',
     ''- Dispute Resolution'',
     '''',
     ''Format as a professional legal document.'']"

definition assess_legal_risk_prompt ::
  "environment \<Rightarrow> string \<Rightarrow> (string \<times> py_value) list \<Rightarrow> string" where
  \<open>assess_legal_risk_prompt env description context = template
    [''Assess the legal risk for the following situation:'',
     '''',
     ''Description: '' @ description,
     ''Context: '' @ json_dumps env (PyDict context),
     '''',
     ''Provide:'',
     ''1. Risk Level (Low, Medium, High, Critical)'',
     ''2. Risk Score (1-10)'',
     ''3. Risk Factors'',
     ''4. Mitigation Strategies'',
     ''5. Recommended Actions'',
     '''',
     ''Format as JSON:'',
     ''{'',
     ''    "risk_level": "<level>",'',
     ''    "risk_score": <number>,'',
     ''    "risk_factors": ["factor1", "factor2"],'',
     ''    "mitigation_strategies": ["strategy1", "strategy2"],'',
     ''    "recommended_actions": ["action1", "action2"]'',
     ''}'']\<close>

definition legal_research_prompt :: "string \<Rightarrow> string" where
  \<open>legal_research_prompt query = template
    [''Conduct legal research on the following query:'',
     '''',
     ''Query: '' @ query,
     '''',
     ''Provide:'',
     ''1. Summary of relevant law'',
     ''2. Key legal principles'',
     ''3. Precedent cases (if applicable)'',
     ''4. Practical implications'',
     ''5. Recommendations'',
     '''',
     ''Format as JSON:'',
     ''{'',
     ''    "summary": "<summary>",'',
     ''    "key_principles": ["principle1", "principle2"],'',
     ''    "precedent_cases": ["case1", "case2"],'',
     ''    "practical_implications": ["implication1", "implication2"],'',
     ''    "recommendations": ["rec1", "rec2"]'',
     ''}'']\<close>

text \<open>
  The keyword arguments of each \<^verbatim>\<open>acreate\<close> call: the configured model, a system
  message with the task's persona, the prompt as the user message, and the temperature
  literal (\<^verbatim>\<open>0.1\<close> or \<^verbatim>\<open>0.2\<close>, kept as the decimal the source writes).
\<close>

definition analyze_contract_request :: "environment \<Rightarrow> string \<Rightarrow> chat_request" where
  "analyze_contract_request env contract_text =
     \<lparr>model = OPENAI_MODEL env,
      messages =
        [\<lparr>role = ''system'',
          content = ''You are a legal AI assistant specialized in contract analysis.''\<rparr>,
         \<lparr>role = ''user'', content = analyze_contract_prompt contract_text\<rparr>],
      temperature = 1 / 10\<rparr>"

definition generate_contract_draft_request ::
  "environment \<Rightarrow> string \<Rightarrow> string list \<Rightarrow> (string \<times> py_value) list \<Rightarrow> chat_request" where
  "generate_contract_draft_request env contract_type parties key_terms =
     \<lparr>model = OPENAI_MODEL env,
      messages =
        [\<lparr>role = ''system'',
          content = ''You are a legal AI assistant specialized in contract drafting.''\<rparr>,
         \<lparr>role = ''user'',
          content = generate_contract_draft_prompt env contract_type parties key_terms\<rparr>],
      temperature = 2 / 10\<rparr>"

definition assess_legal_risk_request ::
  "environment \<Rightarrow> string \<Rightarrow> (string \<times> py_value) list \<Rightarrow> chat_request" where
  "assess_legal_risk_request env description context =
     \<lparr>model = OPENAI_MODEL env,
      messages =
        [\<lparr>role = ''system'', content = ''You are a legal risk assessment AI assistant.''\<rparr>,
         \<lparr>role = ''user'', content = assess_legal_risk_prompt env description context\<rparr>],
      temperature = 1 / 10\<rparr>"

definition legal_research_request :: "environment \<Rightarrow> string \<Rightarrow> chat_request" where
  "legal_research_request env query =
     \<lparr>model = OPENAI_MODEL env,
      messages =
        [\<lparr>role = ''system'', content = ''You are a legal research AI assistant.''\<rparr>,
         \<lparr>role = ''user'', content = legal_research_prompt query\<rparr>],
      temperature = 1 / 10\<rparr>"

subsection \<open>The four gateways\<close>

text \<open>The dictionaries returned by the three \<^verbatim>\<open>except\<close> branches that return one.\<close>

definition analyze_contract_default :: py_value where
  "analyze_contract_default = PyDict
     [(''risk_score'', PyInt 5),
      (''key_terms'', PyList []),
      (''potential_issues'', PyList [PyStr ''Analysis error occurred'']),
      (''recommendations'', PyList [PyStr ''Manual review recommended'']),
      (''missing_clauses'', PyList [])]"

definition assess_legal_risk_default :: py_value where
  "assess_legal_risk_default = PyDict
     [(''risk_level'', PyStr ''Medium''),
      (''risk_score'', PyInt 5),
      (''risk_factors'', PyList [PyStr ''Assessment error occurred'']),
      (''mitigation_strategies'', PyList [PyStr ''Manual review recommended'']),
      (''recommended_actions'', PyList [PyStr ''Consult legal expert''])]"

definition legal_research_default :: py_value where
  "legal_research_default = PyDict
     [(''summary'', PyStr ''Research error occurred''),
      (''key_principles'', PyList []),
      (''precedent_cases'', PyList []),
      (''practical_implications'', PyList []),
      (''recommendations'', PyList [PyStr ''Manual research recommended''])]"

text \<open>
  \<^verbatim>\<open>json.loads(response.choices[0].message.content)\<close>: the content is a string, or
  \<^verbatim>\<open>None\<close>, on which \<^verbatim>\<open>json.loads\<close> raises \<^verbatim>\<open>TypeError\<close>.
\<close>

definition loads_content :: "environment \<Rightarrow> string option \<Rightarrow> (py_exn, py_value) outcome" where
  "loads_content env c =
     (case c of
        Some s \<Rightarrow> of_sum (json_loads env s)
      | None \<Rightarrow>
          Raise (PyExn ''TypeError''
                   ''the JSON object must be str, bytes or bytearray, not NoneType''))"

text \<open>
  Each method returns its outcome and the new state. The request is sent first; then
  either the \<^verbatim>\<open>try\<close> body's value is returned, or the handler logs \<^verbatim>\<open>str(e)\<close> and
  returns the fixed value, or an object that \<^verbatim>\<open>except Exception\<close> does not catch leaves
  the method.
\<close>

definition analyze_contract ::
  "environment \<Rightarrow> string \<Rightarrow> world \<Rightarrow> (py_exn, py_value) outcome \<times> world" where
  "analyze_contract env contract_text w =
     (let req = analyze_contract_request env contract_text;
          w1 = send req w
      in case then_do (chat_completion env req) (loads_content env) of
           Return v \<Rightarrow> (Return v, w1)
         | Raise e \<Rightarrow>
             (Return analyze_contract_default,
              logger_error (''Error analyzing contract: '' @ exn_str e) w1)
         | Abort b \<Rightarrow> (Abort b, w1))"

definition generate_contract_draft ::
  "environment \<Rightarrow> string \<Rightarrow> string list \<Rightarrow> (string \<times> py_value) list \<Rightarrow> world
     \<Rightarrow> (py_exn, string option) outcome \<times> world" where
  "generate_contract_draft env contract_type parties key_terms w =
     (let req = generate_contract_draft_request env contract_type parties key_terms;
          w1 = send req w
      in case chat_completion env req of
           Return c \<Rightarrow> (Return c, w1)
         | Raise e \<Rightarrow>
             (Return (Some (''Error generating contract draft: '' @ exn_str e)),
              logger_error (''Error generating contract: '' @ exn_str e) w1)
         | Abort b \<Rightarrow> (Abort b, w1))"

definition assess_legal_risk ::
  "environment \<Rightarrow> string \<Rightarrow> (string \<times> py_value) list \<Rightarrow> world
     \<Rightarrow> (py_exn, py_value) outcome \<times> world" where
  "assess_legal_risk env description context w =
     (let req = assess_legal_risk_request env description context;
          w1 = send req w
      in case then_do (chat_completion env req) (loads_content env) of
           Return v \<Rightarrow> (Return v, w1)
         | Raise e \<Rightarrow>
             (Return assess_legal_risk_default,
              logger_error (''Error assessing risk: '' @ exn_str e) w1)
         | Abort b \<Rightarrow> (Abort b, w1))"

definition legal_research ::
  "environment \<Rightarrow> string \<Rightarrow> world \<Rightarrow> (py_exn, py_value) outcome \<times> world" where
  "legal_research env query w =
     (let req = legal_research_request env query;
          w1 = send req w
      in case then_do (chat_completion env req) (loads_content env) of
           Return v \<Rightarrow> (Return v, w1)
         | Raise e \<Rightarrow>
             (Return legal_research_default,
              logger_error (''Error in legal research: '' @ exn_str e) w1)
         | Abort b \<Rightarrow> (Abort b, w1))"

text \<open>
  The task request of the specification, and the four methods as one gateway indexed by
  it. The drafting method returns the content of the completion, a Python string or
  \<^verbatim>\<open>None\<close>; the other three return whatever \<^verbatim>\<open>json.loads\<close> returned.
\<close>

datatype task_request =
    AnalyzeContract string
  | GenerateDraft string "string list" "(string \<times> py_value) list"
  | AssessRisk string "(string \<times> py_value) list"
  | Research string

fun request_of :: "environment \<Rightarrow> task_request \<Rightarrow> chat_request" where
  "request_of env (AnalyzeContract contract_text) = analyze_contract_request env contract_text"
| "request_of env (GenerateDraft contract_type parties key_terms) =
     generate_contract_draft_request env contract_type parties key_terms"
| "request_of env (AssessRisk description context) =
     assess_legal_risk_request env description context"
| "request_of env (Research query) = legal_research_request env query"

fun content_value :: "string option \<Rightarrow> py_value" where
  "content_value (Some s) = PyStr s"
| "content_value None = PyNone"

fun task_gateway ::
  "environment \<Rightarrow> task_request \<Rightarrow> world \<Rightarrow> (py_exn, py_value) outcome \<times> world" where
  "task_gateway env (AnalyzeContract contract_text) w = analyze_contract env contract_text w"
| "task_gateway env (GenerateDraft contract_type parties key_terms) w =
     (case generate_contract_draft env contract_type parties key_terms w of
        (r, w1) \<Rightarrow> (then_do r (\<lambda>c. Return (content_value c)), w1))"
| "task_gateway env (AssessRisk description context) w =
     assess_legal_risk env description context w"
| "task_gateway env (Research query) w = legal_research env query w"

fun is_json_task :: "task_request \<Rightarrow> bool" where
  "is_json_task (GenerateDraft _ _ _) = False"
| "is_json_task _ = True"

text \<open>The value each handler returns, as a function of the task and the exception caught.\<close>

fun degraded_default :: "task_request \<Rightarrow> py_exn \<Rightarrow> py_value" where
  "degraded_default (AnalyzeContract _) e = analyze_contract_default"
| "degraded_default (GenerateDraft _ _ _) e =
     PyStr (''Error generating contract draft: '' @ exn_str e)"
| "degraded_default (AssessRisk _ _) e = assess_legal_risk_default"
| "degraded_default (Research _) e = legal_research_default"

subsection \<open>The table of the specification\<close>

text \<open>
  The degraded defaults as the specification's table words them; for the research task
  that is ``summary = "Research error occurred", remaining fields empty lists''.
\<close>

fun spec_degraded_default :: "task_request \<Rightarrow> py_exn \<Rightarrow> py_value" where
  "spec_degraded_default (AnalyzeContract _) e = PyDict
     [(''risk_score'', PyInt 5),
      (''key_terms'', PyList []),
      (''potential_issues'', PyList [PyStr ''Analysis error occurred'']),
      (''recommendations'', PyList [PyStr ''Manual review recommended'']),
      (''missing_clauses'', PyList [])]"
| "spec_degraded_default (GenerateDraft _ _ _) e =
     PyStr (''Error generating contract draft: '' @ exn_str e)"
| "spec_degraded_default (AssessRisk _ _) e = PyDict
     [(''risk_level'', PyStr ''Medium''),
      (''risk_score'', PyInt 5),
      (''risk_factors'', PyList [PyStr ''Assessment error occurred'']),
      (''mitigation_strategies'', PyList [PyStr ''Manual review recommended'']),
      (''recommended_actions'', PyList [PyStr ''Consult legal expert''])]"
| "spec_degraded_default (Research _) e = PyDict
     [(''summary'', PyStr ''Research error occurred''),
      (''key_principles'', PyList []),
      (''precedent_cases'', PyList []),
      (''practical_implications'', PyList []),
      (''recommendations'', PyList [])]"

text \<open>
  The success schema shapes of the same table. A dictionary has a shape when its keys are
  exactly the shape's field names and every value has the field's type.
\<close>

fun is_int :: "py_value \<Rightarrow> bool" where
  "is_int (PyInt _) = True"
| "is_int _ = False"

fun is_str :: "py_value \<Rightarrow> bool" where
  "is_str (PyStr _) = True"
| "is_str _ = False"

fun is_str_list :: "py_value \<Rightarrow> bool" where
  "is_str_list (PyList xs) = list_all is_str xs"
| "is_str_list _ = False"

fun is_risk_level :: "py_value \<Rightarrow> bool" where
  "is_risk_level (PyStr s) = (s \<in> {''Low'', ''Medium'', ''High'', ''Critical''})"
| "is_risk_level _ = False"

fun field_ok :: "(string \<times> py_value) list \<Rightarrow> string \<times> (py_value \<Rightarrow> bool) \<Rightarrow> bool" where
  "field_ok d (k, ty) = (case map_of d k of None \<Rightarrow> False | Some v \<Rightarrow> ty v)"

fun has_shape :: "(string \<times> (py_value \<Rightarrow> bool)) list \<Rightarrow> py_value \<Rightarrow> bool" where
  "has_shape fs (PyDict d) =
     (distinct (map fst d) \<and> set (map fst d) = set (map fst fs) \<and>
      list_all (field_ok d) fs)"
| "has_shape fs _ = False"

fun schema_conforms :: "task_request \<Rightarrow> py_value \<Rightarrow> bool" where
  "schema_conforms (AnalyzeContract _) v = has_shape
     [(''risk_score'', is_int), (''key_terms'', is_str_list),
      (''potential_issues'', is_str_list), (''recommendations'', is_str_list),
      (''missing_clauses'', is_str_list)] v"
| "schema_conforms (GenerateDraft _ _ _) v = is_str v"
| "schema_conforms (AssessRisk _ _) v = has_shape
     [(''risk_level'', is_risk_level), (''risk_score'', is_int),
      (''risk_factors'', is_str_list), (''mitigation_strategies'', is_str_list),
      (''recommended_actions'', is_str_list)] v"
| "schema_conforms (Research _) v = has_shape
     [(''summary'', is_str), (''key_principles'', is_str_list),
      (''precedent_cases'', is_str_list), (''practical_implications'', is_str_list),
      (''recommendations'', is_str_list)] v"

subsection \<open>Two routes\<close>

datatype http_exception = HTTPException (status_code: int) (detail: string)

text \<open>
  \<^verbatim>\<open>analysis.get(key, default)\<close>: on a dictionary the value stored under the key (also
  when that value is \<^verbatim>\<open>None\<close>) or the default; any other object has no such method.
\<close>

fun type_name :: "py_value \<Rightarrow> string" where
  "type_name PyNone = ''NoneType''"
| "type_name (PyBool _) = ''bool''"
| "type_name (PyInt _) = ''int''"
| "type_name (PyFloat _) = ''float''"
| "type_name (PyStr _) = ''str''"
| "type_name (PyList _) = ''list''"
| "type_name (PyDict _) = ''dict''"

definition sq :: string where
  "sq = [CHR 0x27]"

fun dict_get :: "py_value \<Rightarrow> string \<Rightarrow> py_value \<Rightarrow> py_exn + py_value" where
  "dict_get (PyDict d) key dflt = Inr (case map_of d key of Some v \<Rightarrow> v | None \<Rightarrow> dflt)"
| "dict_get obj key dflt =
     Inl (PyExn ''AttributeError''
            (sq @ type_name obj @ sq @ '' object has no attribute '' @ sq @ ''get'' @ sq))"

text \<open>
  The response model \<^verbatim>\<open>ContractAnalysisResponse\<close> declares \<^verbatim>\<open>risk_score: int\<close> and four
  fields of type \<^verbatim>\<open>List[str]\<close>. Its constructor validates the keyword arguments (pydantic 2,
  which the import of \<^verbatim>\<open>pydantic_settings\<close> requires): an integer is taken as it is;
  \<^verbatim>\<open>None\<close>, a list and a dictionary are never integers; a boolean, a float, a string
  or an integer beyond 64 bits is converted or refused by the library's lax mode, which is
  the parameter \<open>lax_int\<close>; a list field takes a list whose items are all strings. A
  refusal raises \<^verbatim>\<open>ValidationError\<close>, whose text is the parameter
  \<open>validation_error_str\<close>.
\<close>

record contract_analysis_response =
  risk_score :: int
  key_terms :: "string list"
  potential_issues :: "string list"
  recommendations :: "string list"
  missing_clauses :: "string list"

fun validate_int :: "environment \<Rightarrow> py_value \<Rightarrow> int option" where
  "validate_int env (PyInt n) =
     (if - (2 ^ 63) \<le> n \<and> n < 2 ^ 63 then Some n else lax_int env (PyInt n))"
| "validate_int env PyNone = None"
| "validate_int env (PyList xs) = None"
| "validate_int env (PyDict d) = None"
| "validate_int env v = lax_int env v"

fun validate_str :: "py_value \<Rightarrow> string option" where
  "validate_str (PyStr s) = Some s"
| "validate_str _ = None"

fun validate_strs :: "py_value list \<Rightarrow> string list option" where
  "validate_strs [] = Some []"
| "validate_strs (x # xs) =
     (case (validate_str x, validate_strs xs) of
        (Some s, Some ss) \<Rightarrow> Some (s # ss)
      | _ \<Rightarrow> None)"

fun validate_str_list :: "py_value \<Rightarrow> string list option" where
  "validate_str_list (PyList xs) = validate_strs xs"
| "validate_str_list _ = None"

definition ContractAnalysisResponse ::
  "environment \<Rightarrow> py_value \<Rightarrow> py_value \<Rightarrow> py_value \<Rightarrow> py_value \<Rightarrow> py_value
     \<Rightarrow> py_exn + contract_analysis_response" where
  "ContractAnalysisResponse env rs kt po rc mc =
     (case (validate_int env rs, validate_str_list kt, validate_str_list po,
            validate_str_list rc, validate_str_list mc) of
        (Some a, Some b, Some c, Some d, Some e) \<Rightarrow>
          Inr \<lparr>risk_score = a, key_terms = b, potential_issues = c,
               recommendations = d, missing_clauses = e\<rparr>
      | _ \<Rightarrow>
          Inl (PyExn ''ValidationError''
                 (validation_error_str env
                    [(''risk_score'', rs), (''key_terms'', kt), (''potential_issues'', po),
                     (''recommendations'', rc), (''missing_clauses'', mc)])))"

text \<open>
  \<^verbatim>\<open>POST /api/v1/ai/analyze-contract\<close>, a function that the source also names
  \<^verbatim>\<open>analyze_contract\<close>. Any instance of \<^verbatim>\<open>Exception\<close> raised inside the route's \<^verbatim>\<open>try\<close>
  is logged and replaced by \<^verbatim>\<open>HTTPException(status_code=500, ...)\<close>.
\<close>

definition analyze_contract_route ::
  "environment \<Rightarrow> string \<Rightarrow> world
     \<Rightarrow> (http_exception, contract_analysis_response) outcome \<times> world" where
  "analyze_contract_route env contract_text w =
     (case analyze_contract env contract_text w of
        (r, w1) \<Rightarrow>
          (case then_do r (\<lambda>analysis.
                  then_do (of_sum (dict_get analysis ''risk_score'' (PyInt 5))) (\<lambda>rs.
                  then_do (of_sum (dict_get analysis ''key_terms'' (PyList []))) (\<lambda>kt.
                  then_do (of_sum (dict_get analysis ''potential_issues'' (PyList []))) (\<lambda>po.
                  then_do (of_sum (dict_get analysis ''recommendations'' (PyList []))) (\<lambda>rc.
                  then_do (of_sum (dict_get analysis ''missing_clauses'' (PyList []))) (\<lambda>mc.
                  of_sum (ContractAnalysisResponse env rs kt po rc mc))))))) of
             Return response \<Rightarrow> (Return response, w1)
           | Raise e \<Rightarrow>
               (Raise (HTTPException 500 ''Contract analysis failed''),
                logger_error (''Contract analysis error: '' @ exn_str e) w1)
           | Abort b \<Rightarrow> (Abort b, w1)))"

text \<open>
  \<^verbatim>\<open>POST /api/v1/ai/assess-risk\<close>. The optional \<^verbatim>\<open>context\<close> goes through
  \<^verbatim>\<open>context or {}\<close>, which keeps a non-empty dictionary and turns \<^verbatim>\<open>None\<close> and the empty
  dictionary into \<^verbatim>\<open>{}\<close>. The argument \<open>now\<close> is what
  \<^verbatim>\<open>datetime.utcnow().isoformat()\<close> reads from the clock during this call; two calls
  read the clock separately.
\<close>

definition or_empty :: "(string \<times> py_value) list option \<Rightarrow> (string \<times> py_value) list" where
  "or_empty context = (case context of None \<Rightarrow> [] | Some d \<Rightarrow> (if d \<noteq> [] then d else []))"

definition assess_risk ::
  "environment \<Rightarrow> string \<Rightarrow> string \<Rightarrow> (string \<times> py_value) list option \<Rightarrow> world
     \<Rightarrow> (http_exception, py_value) outcome \<times> world" where
  "assess_risk env now description context w =
     (case assess_legal_risk env description (or_empty context) w of
        (r, w1) \<Rightarrow>
          (case r of
             Return risk_assessment \<Rightarrow>
               (Return (PyDict [(''risk_assessment'', risk_assessment),
                                (''assessed_at'', PyStr now)]), w1)
           | Raise e \<Rightarrow>
               (Raise (HTTPException 500 ''Risk assessment failed''),
                logger_error (''Risk assessment error: '' @ exn_str e) w1)
           | Abort b \<Rightarrow> (Abort b, w1)))"

subsection \<open>A decoder and a stub environment for running the gateways\<close>

text \<open>
  The theorems below hold for every environment. To run the gateways on concrete
  replies, \<open>json_loads_core\<close> decodes the core of what \<^verbatim>\<open>json.loads\<close> accepts, as it does:
  white space, \<^verbatim>\<open>null\<close>, \<^verbatim>\<open>true\<close>, \<^verbatim>\<open>false\<close>, integers, strings without escapes, arrays
  and objects (a repeated key keeps its first position and its last value), and the three
  names \<^verbatim>\<open>NaN\<close>, \<^verbatim>\<open>Infinity\<close> and \<^verbatim>\<open>-Infinity\<close>, which \<^verbatim>\<open>json.loads\<close> decodes to the
  floats nan, inf and -inf although they are not JSON. A text with a fraction, an
  exponent or an escape lies outside this core and is refused here; none is used below.
  Malformed text is refused as \<^verbatim>\<open>json.loads\<close> refuses it, with \<^verbatim>\<open>JSONDecodeError\<close>,
  whose message is abridged. The descent is bounded by a counter started above the length
  of the text; each nested call follows at least one consumed character.
\<close>

definition is_ws :: "char \<Rightarrow> bool" where
  "is_ws c = (c = CHR '' '' \<or> c = CHR 0x09 \<or> c = CHR 0x0A \<or> c = CHR 0x0D)"

definition skip_ws :: "string \<Rightarrow> string" where
  "skip_ws s = dropWhile is_ws s"

definition is_digit :: "char \<Rightarrow> bool" where
  "is_digit c = (48 \<le> (of_char c :: nat) \<and> (of_char c :: nat) \<le> 57)"

definition digits_value :: "string \<Rightarrow> int" where
  "digits_value ds = foldl (\<lambda>a c. 10 * a + (int (of_char c) - 48)) 0 ds"

fun scan_string :: "string \<Rightarrow> string \<Rightarrow> (string \<times> string) option" where
  "scan_string acc [] = None"
| "scan_string acc (c # cs) =
     (if c = CHR 0x22 then Some (rev acc, cs)
      else if c = CHR 0x5C \<or> (of_char c :: nat) < 32 then None
      else scan_string (c # acc) cs)"

definition scan_int :: "string \<Rightarrow> (int \<times> string) option" where
  "scan_int s =
     (let neg = (case s of [] \<Rightarrow> False | c # _ \<Rightarrow> c = CHR ''-'');
          s1 = (if neg then tl s else s);
          ds = (case s1 of [] \<Rightarrow> []
                | c # cs \<Rightarrow> (if c = CHR ''0'' then [c] else takeWhile is_digit s1));
          r = drop (length ds) s1
      in if ds = [] then None
         else (case r of [] \<Rightarrow> Some (if neg then - digits_value ds else digits_value ds, r)
               | c # _ \<Rightarrow>
                   (if c = CHR ''.'' \<or> c = CHR ''e'' \<or> c = CHR ''E'' then None
                    else Some (if neg then - digits_value ds else digits_value ds, r))))"

fun dict_set :: "string \<Rightarrow> py_value \<Rightarrow> (string \<times> py_value) list \<Rightarrow> (string \<times> py_value) list" where
  "dict_set k v [] = [(k, v)]"
| "dict_set k v ((k', v') # d) = (if k = k' then (k, v) # d else (k', v') # dict_set k v d)"

definition scan_literal :: "string \<Rightarrow> (py_value \<times> string) option" where
  "scan_literal s =
     (if take 4 s = ''null'' then Some (PyNone, drop 4 s)
      else if take 4 s = ''true'' then Some (PyBool True, drop 4 s)
      else if take 5 s = ''false'' then Some (PyBool False, drop 5 s)
      else if take 3 s = ''NaN'' then Some (PyFloat 0x7FF8000000000000, drop 3 s)
      else if take 8 s = ''Infinity'' then Some (PyFloat 0x7FF0000000000000, drop 8 s)
      else if take 9 s = ''-Infinity'' then Some (PyFloat 0xFFF0000000000000, drop 9 s)
      else map_option (\<lambda>(n, r). (PyInt n, r)) (scan_int s))"

fun parse_value :: "nat \<Rightarrow> string \<Rightarrow> (py_value \<times> string) option"
  and parse_elements :: "nat \<Rightarrow> py_value list \<Rightarrow> string \<Rightarrow> (py_value \<times> string) option"
  and parse_members :: "nat \<Rightarrow> (string \<times> py_value) list \<Rightarrow> string \<Rightarrow> (py_value \<times> string) option"
where
  "parse_value 0 s = None"
| "parse_value (Suc n) [] = None"
| "parse_value (Suc n) (c # cs) =
     (if c = CHR 0x22 then map_option (\<lambda>(x, r). (PyStr x, r)) (scan_string [] cs)
      else if c = CHR ''['' then
        (case skip_ws cs of
           [] \<Rightarrow> None
         | c' # r \<Rightarrow>
             (if c' = CHR '']'' then Some (PyList [], r) else parse_elements n [] (c' # r)))
      else if c = CHR ''{'' then
        (case skip_ws cs of
           [] \<Rightarrow> None
         | c' # r \<Rightarrow>
             (if c' = CHR ''}'' then Some (PyDict [], r) else parse_members n [] (c' # r)))
      else scan_literal (c # cs))"
| "parse_elements 0 acc s = None"
| "parse_elements (Suc n) acc s =
     (case parse_value n s of
        None \<Rightarrow> None
      | Some (v, r) \<Rightarrow>
          (case skip_ws r of
             [] \<Rightarrow> None
           | c # r' \<Rightarrow>
               (if c = CHR '','' then parse_elements n (acc @ [v]) (skip_ws r')
                else if c = CHR '']'' then Some (PyList (acc @ [v]), r')
                else None)))"
| "parse_members 0 acc s = None"
| "parse_members (Suc n) acc [] = None"
| "parse_members (Suc n) acc (q # s) =
     (if q \<noteq> CHR 0x22 then None
      else
        (case scan_string [] s of
           None \<Rightarrow> None
         | Some (k, r) \<Rightarrow>
             (case skip_ws r of
                [] \<Rightarrow> None
              | c # r1 \<Rightarrow>
                  (if c \<noteq> CHR '':'' then None
                   else
                     (case parse_value n (skip_ws r1) of
                        None \<Rightarrow> None
                      | Some (v, r2) \<Rightarrow>
                          (case skip_ws r2 of
                             [] \<Rightarrow> None
                           | c' # r3 \<Rightarrow>
                               (if c' = CHR '','' then
                                  parse_members n (dict_set k v acc) (skip_ws r3)
                                else if c' = CHR ''}'' then
                                  Some (PyDict (dict_set k v acc), r3)
                                else None)))))))"

definition json_loads_core :: "string \<Rightarrow> py_exn + py_value" where
  "json_loads_core s =
     (case parse_value (Suc (length s)) (skip_ws s) of
        None \<Rightarrow> Inl (PyExn ''JSONDecodeError'' ''Expecting value'')
      | Some (v, r) \<Rightarrow>
          (if skip_ws r = [] then Inr v else Inl (PyExn ''JSONDecodeError'' ''Extra data'')))"

subsection \<open>Valid JSON\<close>

text \<open>
  What ``valid JSON'' means, for the claims that speak of it: the grammar of RFC 8259, as
  a recogniser. A string is closed by an unescaped quote, holds no control character, and
  a backslash is followed by one of \<^verbatim>\<open>" \ / b f n r t\<close> or by \<^verbatim>\<open>u\<close> and four hexadecimal
  digits. A number is an optional minus sign, \<^verbatim>\<open>0\<close> or digits not starting with \<^verbatim>\<open>0\<close>, an
  optional fraction and an optional exponent. The names \<^verbatim>\<open>NaN\<close> and \<^verbatim>\<open>Infinity\<close> are not
  in the grammar. The descent into arrays and objects is bounded by a counter, as in the
  decoder.
\<close>

definition is_hex :: "char \<Rightarrow> bool" where
  "is_hex c =
     (is_digit c \<or> (97 \<le> (of_char c :: nat) \<and> (of_char c :: nat) \<le> 102) \<or>
      (65 \<le> (of_char c :: nat) \<and> (of_char c :: nat) \<le> 70))"

datatype string_mode = Plain | Escaped | Hex nat

fun json_string_rest :: "string_mode \<Rightarrow> string \<Rightarrow> string option" where
  "json_string_rest m [] = None"
| "json_string_rest Plain (c # cs) =
     (if c = CHR 0x22 then Some cs
      else if c = CHR 0x5C then json_string_rest Escaped cs
      else if (of_char c :: nat) < 32 then None
      else json_string_rest Plain cs)"
| "json_string_rest Escaped (c # cs) =
     (if c = CHR ''u'' then json_string_rest (Hex 4) cs
      else if c \<in> set [CHR 0x22, CHR 0x5C, CHR ''/'', CHR ''b'', CHR ''f'', CHR ''n'',
                         CHR ''r'', CHR ''t'']
      then json_string_rest Plain cs
      else None)"
| "json_string_rest (Hex n) (c # cs) =
     (if is_hex c
      then (if n \<le> 1 then json_string_rest Plain cs else json_string_rest (Hex (n - 1)) cs)
      else None)"

definition digits_rest :: "string \<Rightarrow> string option" where
  "digits_rest s =
     (case s of
        [] \<Rightarrow> None
      | c # r \<Rightarrow> (if is_digit c then Some (dropWhile is_digit r) else None))"

definition json_int_rest :: "string \<Rightarrow> string option" where
  "json_int_rest s =
     (case (case s of [] \<Rightarrow> [] | c # r \<Rightarrow> (if c = CHR ''-'' then r else s)) of
        [] \<Rightarrow> None
      | c # r \<Rightarrow> (if c = CHR ''0'' then Some r else digits_rest (c # r)))"

definition json_frac_rest :: "string \<Rightarrow> string option" where
  "json_frac_rest s =
     (case s of
        [] \<Rightarrow> Some s
      | c # r \<Rightarrow> (if c = CHR ''.'' then digits_rest r else Some s))"

definition json_exp_rest :: "string \<Rightarrow> string option" where
  "json_exp_rest s =
     (case s of
        [] \<Rightarrow> Some s
      | c # r \<Rightarrow>
          (if c = CHR ''e'' \<or> c = CHR ''E'' then
             (case r of
                [] \<Rightarrow> None
              | g # r' \<Rightarrow>
                  (if g = CHR ''+'' \<or> g = CHR ''-'' then digits_rest r' else digits_rest r))
           else Some s))"

definition json_number_rest :: "string \<Rightarrow> string option" where
  "json_number_rest s = Option.bind (Option.bind (json_int_rest s) json_frac_rest) json_exp_rest"

definition json_scalar_rest :: "string \<Rightarrow> string option" where
  "json_scalar_rest s =
     (if take 4 s = ''null'' then Some (drop 4 s)
      else if take 4 s = ''true'' then Some (drop 4 s)
      else if take 5 s = ''false'' then Some (drop 5 s)
      else json_number_rest s)"

fun json_value_rest :: "nat \<Rightarrow> string \<Rightarrow> string option"
  and json_elements_rest :: "nat \<Rightarrow> string \<Rightarrow> string option"
  and json_members_rest :: "nat \<Rightarrow> string \<Rightarrow> string option"
where
  "json_value_rest 0 s = None"
| "json_value_rest (Suc n) [] = None"
| "json_value_rest (Suc n) (c # cs) =
     (if c = CHR 0x22 then json_string_rest Plain cs
      else if c = CHR ''['' then
        (case skip_ws cs of
           [] \<Rightarrow> None
         | c' # r \<Rightarrow> (if c' = CHR '']'' then Some r else json_elements_rest n (c' # r)))
      else if c = CHR ''{'' then
        (case skip_ws cs of
           [] \<Rightarrow> None
         | c' # r \<Rightarrow> (if c' = CHR ''}'' then Some r else json_members_rest n (c' # r)))
      else json_scalar_rest (c # cs))"
| "json_elements_rest 0 s = None"
| "json_elements_rest (Suc n) s =
     (case json_value_rest n s of
        None \<Rightarrow> None
      | Some r \<Rightarrow>
          (case skip_ws r of
             [] \<Rightarrow> None
           | c # r' \<Rightarrow>
               (if c = CHR '','' then json_elements_rest n (skip_ws r')
                else if c = CHR '']'' then Some r'
                else None)))"
| "json_members_rest 0 s = None"
| "json_members_rest (Suc n) [] = None"
| "json_members_rest (Suc n) (q # s) =
     (if q \<noteq> CHR 0x22 then None
      else
        (case json_string_rest Plain s of
           None \<Rightarrow> None
         | Some r \<Rightarrow>
             (case skip_ws r of
                [] \<Rightarrow> None
              | c # r1 \<Rightarrow>
                  (if c \<noteq> CHR '':'' then None
                   else
                     (case json_value_rest n (skip_ws r1) of
                        None \<Rightarrow> None
                      | Some r2 \<Rightarrow>
                          (case skip_ws r2 of
                             [] \<Rightarrow> None
                           | c' # r3 \<Rightarrow>
                               (if c' = CHR '','' then json_members_rest n (skip_ws r3)
                                else if c' = CHR ''}'' then Some r3
                                else None)))))))"

definition valid_json :: "string \<Rightarrow> bool" where
  "valid_json s =
     (case json_value_rest (Suc (length s)) (skip_ws s) of
        None \<Rightarrow> False
      | Some r \<Rightarrow> skip_ws r = [])"

text \<open>
  A model invoker stub with a fixed outcome, as in the specification's example scenarios;
  the model name is the default of \<^verbatim>\<open>Settings\<close>. The examples only serialise empty
  dictionaries, and the stub's response model has no lax conversions.
\<close>

definition stub_env :: "(py_exn, string option) outcome \<Rightarrow> environment" where
  "stub_env result =
     \<lparr>OPENAI_MODEL = ''gpt-4'',
      chat_completion = (\<lambda>_. result),
      json_loads = json_loads_core,
      json_dumps = (\<lambda>_. ''{}''),
      lax_int = (\<lambda>_. None),
      validation_error_str = (\<lambda>_. ''validation error'')\<rparr>"

definition w0 :: world where
  "w0 = \<lparr>error_log = [], requests = []\<rparr>"

text \<open>Outcomes of the model invoker used in the examples.\<close>

definition timeout_error :: py_exn where
  "timeout_error = PyExn ''Timeout'' ''Request timed out''"

definition cancelled_error :: py_exn where
  "cancelled_error = PyExn ''CancelledError'' ''''"

definition example_analysis_json :: string where
  \<open>example_analysis_json = ''{"risk_score":7,"key_terms":["indemnification"],"potential_issues":["one-sided termination"],"recommendations":["add mutual termination"],"missing_clauses":["force majeure"]}''\<close>

definition example_analysis :: py_value where
  "example_analysis = PyDict
     [(''risk_score'', PyInt 7),
      (''key_terms'', PyList [PyStr ''indemnification'']),
      (''potential_issues'', PyList [PyStr ''one-sided termination'']),
      (''recommendations'', PyList [PyStr ''add mutual termination'']),
      (''missing_clauses'', PyList [PyStr ''force majeure''])]"

definition prose_reply :: string where
  "prose_reply = ''I cannot help with that.''"

section \<open>Properties\<close>

subsection \<open>What every gateway call returns, sends and logs\<close>

lemma gateway_result:
  "fst (task_gateway env t w) =
     (case chat_completion env (request_of env t) of
        Abort b \<Rightarrow> Abort b
      | Raise e \<Rightarrow> Return (degraded_default t e)
      | Return c \<Rightarrow>
          (if is_json_task t
           then (case loads_content env c of
                   Return v \<Rightarrow> Return v
                 | Raise e \<Rightarrow> Return (degraded_default t e)
                 | Abort b \<Rightarrow> Abort b)
           else Return (content_value c)))"
  by (cases t)
     (simp_all add: analyze_contract_def generate_contract_draft_def assess_legal_risk_def
        legal_research_def then_do_def Let_def split: outcome.splits)

lemma loads_content_text:
  "loads_content env (Some s) =
     (case json_loads env s of Inl e \<Rightarrow> Raise e | Inr v \<Rightarrow> Return v)"
  by (simp add: loads_content_def of_sum_def)

lemma loads_content_no_abort: "loads_content env c \<noteq> Abort b"
  by (cases c) (simp_all add: loads_content_def of_sum_def split: sum.splits)

lemma gateway_requests:
  "requests (snd (task_gateway env t w)) = requests w @ [request_of env t]"
  by (cases t)
     (simp_all add: analyze_contract_def generate_contract_draft_def assess_legal_risk_def
        legal_research_def then_do_def Let_def send_def logger_error_def
        split: outcome.splits)


lemma degraded_default_conforms: "schema_conforms t (degraded_default t e)"
  by (cases t)
     (simp_all add: analyze_contract_default_def assess_legal_risk_default_def
        legal_research_default_def)

lemma temperature_request_of:
  "temperature (request_of env t) = (if is_json_task t then 1 / 10 else 2 / 10)"
  by (cases t)
     (simp_all add: analyze_contract_request_def generate_contract_draft_request_def
        assess_legal_risk_request_def legal_research_request_def)

subsection \<open>The decoder and the grammar on the replies of the examples\<close>

lemma loads_example: "json_loads_core example_analysis_json = Inr example_analysis"
  by code_simp

lemma loads_number: "json_loads_core ''42'' = Inr (PyInt 42)"
  by code_simp

lemma loads_prose:
  "json_loads_core prose_reply = Inl (PyExn ''JSONDecodeError'' ''Expecting value'')"
  by code_simp

lemma loads_list: "json_loads_core ''[1, 2]'' = Inr (PyList [PyInt 1, PyInt 2])"
  by code_simp

lemma loads_nan: "json_loads_core ''NaN'' = Inr (PyFloat 0x7FF8000000000000)"
  by code_simp

lemma loads_null_score:
  \<open>json_loads_core ''{"risk_score": null}'' = Inr (PyDict [(''risk_score'', PyNone)])\<close>
  by code_simp

lemma loads_score_only:
  \<open>json_loads_core ''{"risk_score": 7}'' = Inr (PyDict [(''risk_score'', PyInt 7)])\<close>
  by code_simp

lemma valid_json_example: "valid_json example_analysis_json"
  by code_simp

lemma valid_json_number: "valid_json ''42''"
  by code_simp

lemma not_valid_json_prose: "\<not> valid_json prose_reply"
  by code_simp

lemma not_valid_json_nan: "\<not> valid_json ''NaN''"
  by code_simp

subsection \<open>Degraded defaults\<close>

text \<open>
  Claim C1, as amended. When the model invoker raises an error, the result of the gateway
  is the degraded default that the specification's table documents for the analysis,
  drafting and risk tasks. For the research task it is the dictionary with summary
  "Research error occurred", the three fields \<open>key_principles\<close>, \<open>precedent_cases\<close> and
  \<open>practical_implications\<close> empty, and \<open>recommendations\<close> holding the one string
  "Manual research recommended".
\<close>

theorem invoker_error_gives_default:
  assumes "chat_completion env (request_of env t) = Raise e"
  shows "fst (task_gateway env t w) =
     Return (case t of
            Research query \<Rightarrow> PyDict
              [(''summary'', PyStr ''Research error occurred''),
               (''key_principles'', PyList []),
               (''precedent_cases'', PyList []),
               (''practical_implications'', PyList []),
               (''recommendations'', PyList [PyStr ''Manual research recommended''])]
          | _ \<Rightarrow> spec_degraded_default t e)"
proof -
  have "fst (task_gateway env t w) = Return (degraded_default t e)"
    using assms by (simp add: gateway_result)
  moreover have "degraded_default t e =
     (case t of
        Research query \<Rightarrow> legal_research_default
      | _ \<Rightarrow> spec_degraded_default t e)"
    by (cases t) (simp_all add: analyze_contract_default_def assess_legal_risk_default_def)
  ultimately show ?thesis
    by (simp add: legal_research_default_def split: task_request.splits)
qed

text \<open>
  The specification's example scenario: the risk task with an invoker that times out.
\<close>

theorem invoker_error_gives_default_witness:
  "chat_completion (stub_env (Raise timeout_error))
       (request_of (stub_env (Raise timeout_error)) (AssessRisk ''Late delivery'' [])) =
     Raise timeout_error \<and>
   fst (task_gateway (stub_env (Raise timeout_error)) (AssessRisk ''Late delivery'' []) w0) =
     Return (PyDict
       [(''risk_level'', PyStr ''Medium''),
        (''risk_score'', PyInt 5),
        (''risk_factors'', PyList [PyStr ''Assessment error occurred'']),
        (''mitigation_strategies'', PyList [PyStr ''Manual review recommended'']),
        (''recommended_actions'', PyList [PyStr ''Consult legal expert''])])"
proof -
  have h: "chat_completion (stub_env (Raise timeout_error))
       (request_of (stub_env (Raise timeout_error)) (AssessRisk ''Late delivery'' [])) =
     Raise timeout_error"
    by (simp add: stub_env_def)
  show ?thesis using h invoker_error_gives_default [OF h, of w0] by simp
qed

text \<open>
  Claim C1 as stated fails for the research task: with an invoker that times out, the
  result is not the table's default, since its \<open>recommendations\<close> field is not empty.
\<close>

theorem research_default_not_as_tabled:
  "fst (task_gateway (stub_env (Raise timeout_error)) (Research ''fair use'') w0) \<noteq>
     Return (spec_degraded_default (Research ''fair use'') timeout_error) \<and>
   then_do (fst (task_gateway (stub_env (Raise timeout_error)) (Research ''fair use'') w0))
       (\<lambda>v. of_sum (dict_get v ''recommendations'' PyNone)) =
     Return (PyList [PyStr ''Manual research recommended''])"
  by (simp add: gateway_result stub_env_def legal_research_default_def then_do_def of_sum_def
        del: task_gateway.simps)

subsection \<open>What leaves a gateway\<close>

text \<open>
  Claim C2, as amended. For every task, environment and state, a gateway call never
  raises an instance of \<^verbatim>\<open>Exception\<close>: either the awaited model call is left by an
  object that is not an \<^verbatim>\<open>Exception\<close> (such as \<^verbatim>\<open>asyncio.CancelledError\<close>), which then
  leaves the gateway too, or the gateway returns a value. A returned value conforms to
  the task's schema shape unless it is the decoded reply of the model, which is passed on
  whatever its shape, or the \<^verbatim>\<open>None\<close> content of a completion, which the drafting method
  passes on.
\<close>

theorem gateway_raises_no_exception:
  "(\<exists>b. chat_completion env (request_of env t) = Abort b \<and>
        fst (task_gateway env t w) = Abort b) \<or>
   (\<exists>v. fst (task_gateway env t w) = Return v \<and>
        (schema_conforms t v \<or>
         (\<exists>s. chat_completion env (request_of env t) = Return (Some s) \<and>
              json_loads env s = Inr v) \<or>
         (chat_completion env (request_of env t) = Return None \<and> v = PyNone)))"
proof (cases "chat_completion env (request_of env t)")
  case (Abort b)
  then show ?thesis by (simp add: gateway_result)
next
  case (Raise e)
  then show ?thesis by (simp add: gateway_result degraded_default_conforms)
next
  case (Return c)
  show ?thesis
  proof (cases "is_json_task t")
    case True
    show ?thesis
    proof (cases c)
      case None
      with Return True show ?thesis
        by (simp add: gateway_result loads_content_def degraded_default_conforms)
    next
      case (Some s)
      with Return True show ?thesis
        by (cases "json_loads env s")
           (simp_all add: gateway_result loads_content_text degraded_default_conforms)
    qed
  next
    case False
    then have "schema_conforms t (PyStr s)" for s by (cases t) simp_all
    with Return False show ?thesis by (cases c) (simp_all add: gateway_result)
  qed
qed

text \<open>A reply that is not JSON: the research gateway returns a conforming value.\<close>

theorem gateway_raises_no_exception_witness:
  "\<exists>v. fst (task_gateway (stub_env (Return (Some prose_reply))) (Research ''fair use'') w0) =
         Return v \<and>
       schema_conforms (Research ''fair use'') v"
  using gateway_raises_no_exception
    [of "stub_env (Return (Some prose_reply))" "Research ''fair use''" w0]
  by (simp add: stub_env_def loads_prose del: task_gateway.simps)

text \<open>
  Claim C2 as stated fails in both halves. A cancellation that reaches the awaited model
  call leaves the analysis gateway. The reply \<^verbatim>\<open>42\<close> is valid JSON, the analysis gateway
  returns the number, and the number does not have the shape of an analysis. A completion
  without content makes the drafting gateway return \<^verbatim>\<open>None\<close>, which is not a text.
\<close>

theorem cancellation_and_passthrough:
  "fst (task_gateway (stub_env (Abort cancelled_error))
          (AnalyzeContract ''This Agreement ...'') w0) = Abort cancelled_error \<and>
   fst (task_gateway (stub_env (Return (Some ''42'')))
          (AnalyzeContract ''This Agreement ...'') w0) = Return (PyInt 42) \<and>
   \<not> schema_conforms (AnalyzeContract ''This Agreement ...'') (PyInt 42) \<and>
   fst (task_gateway (stub_env (Return None))
          (GenerateDraft ''NDA'' [''Acme'', ''Bolt''] []) w0) = Return PyNone \<and>
   \<not> schema_conforms (GenerateDraft ''NDA'' [''Acme'', ''Bolt''] []) PyNone"
  by (simp add: gateway_result stub_env_def loads_content_text loads_number
        del: task_gateway.simps)

subsection \<open>Replies that decode, and replies that do not\<close>

text \<open>
  Claim C3, as amended. For each of the three JSON tasks (analysis, risk, research), if
  the model invoker returns a text that \<^verbatim>\<open>json.loads\<close> decodes, the result of the gateway is
  the decoded value, unchanged. For the drafting task the result is the completion text
  itself, not its decoding.
\<close>

theorem valid_reply_passes_through:
  assumes "chat_completion env (request_of env t) = Return (Some s)"
    and "json_loads env s = Inr v"
  shows "fst (task_gateway env t w) = Return (if is_json_task t then v else PyStr s)"
  using assms by (simp add: gateway_result loads_content_text)

text \<open>
  The specification's example scenario: the analysis gateway with a stub that returns the
  five-field JSON object yields exactly that mapping.
\<close>

theorem valid_reply_passes_through_witness:
  "valid_json example_analysis_json \<and>
   chat_completion (stub_env (Return (Some example_analysis_json)))
      (request_of (stub_env (Return (Some example_analysis_json)))
         (AnalyzeContract ''This Agreement ...'')) = Return (Some example_analysis_json) \<and>
   json_loads (stub_env (Return (Some example_analysis_json))) example_analysis_json =
     Inr example_analysis \<and>
   fst (task_gateway (stub_env (Return (Some example_analysis_json)))
          (AnalyzeContract ''This Agreement ...'') w0) = Return example_analysis"
proof -
  have h1: "chat_completion (stub_env (Return (Some example_analysis_json)))
      (request_of (stub_env (Return (Some example_analysis_json)))
         (AnalyzeContract ''This Agreement ...'')) = Return (Some example_analysis_json)"
    by (simp add: stub_env_def)
  have h2: "json_loads (stub_env (Return (Some example_analysis_json)))
      example_analysis_json = Inr example_analysis"
    by (simp add: stub_env_def loads_example)
  show ?thesis
    using h1 h2 valid_json_example valid_reply_passes_through [OF h1 h2, of w0] by simp
qed

text \<open>
  Claim C3 as stated fails for the drafting task: the same reply is valid JSON and decodes
  to the mapping, and the drafting gateway returns the text, not that mapping.
\<close>

theorem draft_returns_text_not_decoding:
  "valid_json example_analysis_json \<and>
   json_loads (stub_env (Return (Some example_analysis_json))) example_analysis_json =
     Inr example_analysis \<and>
   fst (task_gateway (stub_env (Return (Some example_analysis_json)))
          (GenerateDraft ''NDA'' [''Acme'', ''Bolt''] []) w0) =
     Return (PyStr example_analysis_json) \<and>
   fst (task_gateway (stub_env (Return (Some example_analysis_json)))
          (GenerateDraft ''NDA'' [''Acme'', ''Bolt''] []) w0) \<noteq> Return example_analysis"
  by (simp add: gateway_result stub_env_def loads_example example_analysis_def
        valid_json_example del: task_gateway.simps)



text \<open>
  Claim C5, as amended. For each of the three JSON tasks, if the model invoker returns a
  text on which \<^verbatim>\<open>json.loads\<close> raises, the result of the gateway is the task's degraded
  default (the value of its \<^verbatim>\<open>except\<close> branch), whole, whatever the text was. That covers
  the texts that are not valid JSON except those that \<^verbatim>\<open>json.loads\<close> accepts all the same:
  \<^verbatim>\<open>NaN\<close>, \<^verbatim>\<open>Infinity\<close> and \<^verbatim>\<open>-Infinity\<close>, alone or inside an array or object, are decoded
  and returned.
\<close>

theorem undecodable_reply_gives_default:
  assumes "is_json_task t" and "chat_completion env (request_of env t) = Return (Some s)"
    and "json_loads env s = Inl e"
  shows "fst (task_gateway env t w) =
     Return (case t of
            AnalyzeContract _ \<Rightarrow> analyze_contract_default
          | AssessRisk _ _ \<Rightarrow> assess_legal_risk_default
          | Research _ \<Rightarrow> legal_research_default
          | GenerateDraft _ _ _ \<Rightarrow> degraded_default t e)"
  using assms
  by (cases t) (simp_all add: gateway_result loads_content_text del: task_gateway.simps)

text \<open>A reply in prose, which is not valid JSON and on which the decoder raises.\<close>

theorem undecodable_reply_gives_default_witness:
  "\<not> valid_json prose_reply \<and>
   is_json_task (Research ''fair use'') \<and>
   chat_completion (stub_env (Return (Some prose_reply)))
     (request_of (stub_env (Return (Some prose_reply))) (Research ''fair use'')) =
     Return (Some prose_reply) \<and>
   json_loads (stub_env (Return (Some prose_reply))) prose_reply =
     Inl (PyExn ''JSONDecodeError'' ''Expecting value'') \<and>
   fst (task_gateway (stub_env (Return (Some prose_reply))) (Research ''fair use'') w0) =
     Return legal_research_default"
proof -
  have h1: "is_json_task (Research ''fair use'')" by simp
  have h2: "chat_completion (stub_env (Return (Some prose_reply)))
     (request_of (stub_env (Return (Some prose_reply))) (Research ''fair use'')) =
     Return (Some prose_reply)"
    by (simp add: stub_env_def)
  have h3: "json_loads (stub_env (Return (Some prose_reply))) prose_reply =
     Inl (PyExn ''JSONDecodeError'' ''Expecting value'')"
    by (simp add: stub_env_def loads_prose)
  show ?thesis
    using h1 h2 h3 not_valid_json_prose undecodable_reply_gives_default [OF h1 h2 h3, of w0]
    by simp
qed

text \<open>
  Claim C5 as stated fails: the reply \<^verbatim>\<open>NaN\<close> is not valid JSON, \<^verbatim>\<open>json.loads\<close> decodes it
  to the float nan, and the analysis gateway returns that float, not its degraded default.
\<close>

theorem nan_reply_is_returned:
  "\<not> valid_json ''NaN'' \<and>
   fst (task_gateway (stub_env (Return (Some ''NaN'')))
          (AnalyzeContract ''This Agreement ...'') w0) = Return (PyFloat 0x7FF8000000000000) \<and>
   fst (task_gateway (stub_env (Return (Some ''NaN'')))
          (AnalyzeContract ''This Agreement ...'') w0) \<noteq> Return analyze_contract_default"
  by (simp add: gateway_result stub_env_def loads_content_text loads_nan not_valid_json_nan
        analyze_contract_default_def del: task_gateway.simps)



subsection \<open>Temperature\<close>

text \<open>
  Claim C6. Every gateway call sends exactly one request to the provider, and the
  temperature of that request is 0.1 for the analysis, risk and research tasks and 0.2
  for the drafting task, whatever the inputs.
\<close>

theorem temperature_by_task:
  "requests (snd (task_gateway env t w)) = requests w @ [request_of env t] \<and>
   temperature (request_of env t) = (if is_json_task t then 1 / 10 else 2 / 10)"
  by (simp add: gateway_requests temperature_request_of)

text \<open>An analysis call followed by a drafting call: the two temperatures sent.\<close>

theorem temperature_by_task_witness:
  "map temperature
     (requests (snd (task_gateway (stub_env (Return (Some ''42'')))
        (GenerateDraft ''NDA'' [''Acme'', ''Bolt''] [])
        (snd (task_gateway (stub_env (Return (Some ''42'')))
           (AnalyzeContract ''This Agreement ...'') w0))))) = [1 / 10, 2 / 10]"
  using
    temperature_by_task
      [of "stub_env (Return (Some ''42''))" "AnalyzeContract ''This Agreement ...''" w0]
    temperature_by_task
      [of "stub_env (Return (Some ''42''))" "GenerateDraft ''NDA'' [''Acme'', ''Bolt''] []"
          "snd (task_gateway (stub_env (Return (Some ''42'')))
             (AnalyzeContract ''This Agreement ...'') w0)"]
  by (simp add: w0_def del: task_gateway.simps request_of.simps)

subsection \<open>Independence of calls\<close>

text \<open>
  Claim C7. The result of a gateway call is a function of the task request and of the
  outcome of the model invoker for that call (and of \<^verbatim>\<open>json.loads\<close>, the same function in
  every call): two calls with the same request and the same outcome return the same
  result, whatever the two states (log and requests sent so far) and whatever else differs
  between the two environments. In particular a call returns the same result after any
  other call \<open>t'\<close> as it returns without it.
\<close>

theorem result_depends_on_own_call_only:
  assumes "json_loads env1 = json_loads env2"
    and "chat_completion env1 (request_of env1 t) = chat_completion env2 (request_of env2 t)"
  shows "fst (task_gateway env1 t w1) = fst (task_gateway env2 t w2) \<and>
         fst (task_gateway env1 t (snd (task_gateway env1 t' w1))) =
           fst (task_gateway env1 t w1)"
  using assms
  by (simp add: gateway_result loads_content_def del: task_gateway.simps
        split: outcome.splits option.splits)

theorem result_depends_on_own_call_only_witness:
  "json_loads (stub_env (Return (Some ''42''))) =
     json_loads ((stub_env (Return (Some ''42'')))\<lparr>OPENAI_MODEL := ''gpt-3.5-turbo''\<rparr>) \<and>
   chat_completion (stub_env (Return (Some ''42'')))
     (request_of (stub_env (Return (Some ''42''))) (AnalyzeContract ''This Agreement ...'')) =
   chat_completion ((stub_env (Return (Some ''42'')))\<lparr>OPENAI_MODEL := ''gpt-3.5-turbo''\<rparr>)
     (request_of ((stub_env (Return (Some ''42'')))\<lparr>OPENAI_MODEL := ''gpt-3.5-turbo''\<rparr>)
        (AnalyzeContract ''This Agreement ...'')) \<and>
   fst (task_gateway (stub_env (Return (Some ''42'')))
          (AnalyzeContract ''This Agreement ...'') w0) =
   fst (task_gateway ((stub_env (Return (Some ''42'')))\<lparr>OPENAI_MODEL := ''gpt-3.5-turbo''\<rparr>)
          (AnalyzeContract ''This Agreement ...'')
          \<lparr>error_log = [''Error in legal research: Request timed out''], requests = []\<rparr>) \<and>
   fst (task_gateway (stub_env (Return (Some ''42''))) (AnalyzeContract ''This Agreement ...'')
          (snd (task_gateway (stub_env (Return (Some ''42''))) (Research ''fair use'') w0))) =
   fst (task_gateway (stub_env (Return (Some ''42'')))
          (AnalyzeContract ''This Agreement ...'') w0)"
proof -
  have h1: "json_loads (stub_env (Return (Some ''42''))) =
     json_loads ((stub_env (Return (Some ''42'')))\<lparr>OPENAI_MODEL := ''gpt-3.5-turbo''\<rparr>)"
    by simp
  have h2: "chat_completion (stub_env (Return (Some ''42'')))
     (request_of (stub_env (Return (Some ''42''))) (AnalyzeContract ''This Agreement ...'')) =
   chat_completion ((stub_env (Return (Some ''42'')))\<lparr>OPENAI_MODEL := ''gpt-3.5-turbo''\<rparr>)
     (request_of ((stub_env (Return (Some ''42'')))\<lparr>OPENAI_MODEL := ''gpt-3.5-turbo''\<rparr>)
        (AnalyzeContract ''This Agreement ...''))"
    by (simp add: stub_env_def)
  show ?thesis
    using h1 h2
      result_depends_on_own_call_only
        [OF h1 h2, of w0
           "\<lparr>error_log = [''Error in legal research: Request timed out''], requests = []\<rparr>"
           "Research ''fair use''"]
    by blast
qed

subsection \<open>The routes\<close>

text \<open>
  Claim C9, as amended. At the analyze-contract route, a field missing from the mapping
  that the gateway returned is replaced by its default (5 for \<open>risk_score\<close>, the empty
  list for the four list fields) before the response model is built. If the five values
  so obtained pass the model's validation, the response holds all five fields with the
  validated values; otherwise the route raises HTTP 500 "Contract analysis failed".
\<close>

theorem analyze_route_fills_defaults:
  assumes "fst (analyze_contract env contract_text w) = Return (PyDict d)"
  shows "fst (analyze_contract_route env contract_text w) =
     (case (validate_int env
              (case map_of d ''risk_score'' of Some v \<Rightarrow> v | None \<Rightarrow> PyInt 5),
            validate_str_list
              (case map_of d ''key_terms'' of Some v \<Rightarrow> v | None \<Rightarrow> PyList []),
            validate_str_list
              (case map_of d ''potential_issues'' of Some v \<Rightarrow> v | None \<Rightarrow> PyList []),
            validate_str_list
              (case map_of d ''recommendations'' of Some v \<Rightarrow> v | None \<Rightarrow> PyList []),
            validate_str_list
              (case map_of d ''missing_clauses'' of Some v \<Rightarrow> v | None \<Rightarrow> PyList [])) of
        (Some a, Some b, Some c, Some d', Some e) \<Rightarrow>
          Return \<lparr>risk_score = a, key_terms = b, potential_issues = c,
                  recommendations = d', missing_clauses = e\<rparr>
      | _ \<Rightarrow> Raise (HTTPException 500 ''Contract analysis failed''))"
proof -
  obtain w1 where g: "analyze_contract env contract_text w = (Return (PyDict d), w1)"
    using assms by (cases "analyze_contract env contract_text w") simp
  show ?thesis
    by (simp add: analyze_contract_route_def g then_do_def of_sum_def
          ContractAnalysisResponse_def split: option.splits)
qed

text \<open>A reply with one field only: the other four are filled with empty lists.\<close>

theorem analyze_route_fills_defaults_witness:
  \<open>fst (analyze_contract (stub_env (Return (Some ''{"risk_score": 7}'')))
          ''This Agreement ...'' w0) =
     Return (PyDict [(''risk_score'', PyInt 7)]) \<and>
   fst (analyze_contract_route (stub_env (Return (Some ''{"risk_score": 7}'')))
          ''This Agreement ...'' w0) =
     Return \<lparr>risk_score = 7, key_terms = [], potential_issues = [], recommendations = [],
             missing_clauses = []\<rparr>\<close>
proof -
  have h:
    \<open>fst (analyze_contract (stub_env (Return (Some ''{"risk_score": 7}'')))
            ''This Agreement ...'' w0) =
       Return (PyDict [(''risk_score'', PyInt 7)])\<close>
    by (simp add: analyze_contract_def stub_env_def then_do_def Let_def loads_content_text
          loads_score_only)
  show ?thesis using h analyze_route_fills_defaults [OF h] by simp
qed

text \<open>
  Claim C9 as stated fails: the gateway result is a mapping whose \<open>risk_score\<close> is
  \<^verbatim>\<open>None\<close>; \<^verbatim>\<open>get\<close> returns that \<^verbatim>\<open>None\<close>, the response model refuses it, and the route
  answers with HTTP 500 instead of a response with five fields.
\<close>

theorem analyze_route_null_field_fails:
  \<open>fst (analyze_contract (stub_env (Return (Some ''{"risk_score": null}'')))
          ''This Agreement ...'' w0) =
     Return (PyDict [(''risk_score'', PyNone)]) \<and>
   fst (analyze_contract_route (stub_env (Return (Some ''{"risk_score": null}'')))
          ''This Agreement ...'' w0) =
     Raise (HTTPException 500 ''Contract analysis failed'')\<close>
  by (simp add: analyze_contract_route_def analyze_contract_def stub_env_def then_do_def
        of_sum_def Let_def loads_content_text loads_null_score ContractAnalysisResponse_def)

text \<open>
  Claim C10, as amended. At the assess-risk route the gateway is invoked with the given
  dictionary, or with the empty one when the context is \<^verbatim>\<open>None\<close>, and the clock enters
  the result in the field \<open>assessed_at\<close> only. So a call with \<^verbatim>\<open>context=None\<close> and a call
  with \<^verbatim>\<open>context={}\<close> give the same result and the same state for the same description,
  environment and clock reading; with two clock readings they leave the same state and
  give results that differ in \<open>assessed_at\<close> at most.
\<close>

theorem assess_route_context_default:
  "assess_risk env now description None w =
     assess_risk env now description (Some []) w \<and>
   requests (snd (assess_risk env now description context w)) =
     requests w @
     [assess_legal_risk_request env description
        (case context of None \<Rightarrow> [] | Some d \<Rightarrow> d)] \<and>
   fst (assess_risk env now description context w) =
     (case fst (assess_legal_risk env description
                  (case context of None \<Rightarrow> [] | Some d \<Rightarrow> d) w) of
        Return risk_assessment \<Rightarrow>
          Return (PyDict [(''risk_assessment'', risk_assessment),
                          (''assessed_at'', PyStr now)])
      | Raise e \<Rightarrow> Raise (HTTPException 500 ''Risk assessment failed'')
      | Abort b \<Rightarrow> Abort b) \<and>
   snd (assess_risk env now description None w) =
     snd (assess_risk env now' description (Some []) w)"
proof -
  have oe: "or_empty context = (case context of None \<Rightarrow> [] | Some d \<Rightarrow> d)"
    by (simp add: or_empty_def split: option.splits)
  obtain r w1 where
    g: "assess_legal_risk env description (case context of None \<Rightarrow> [] | Some d \<Rightarrow> d) w =
          (r, w1)"
    by (cases "assess_legal_risk env description (case context of None \<Rightarrow> [] | Some d \<Rightarrow> d) w")
  have sent: "requests w1 =
      requests w @
      [assess_legal_risk_request env description (case context of None \<Rightarrow> [] | Some d \<Rightarrow> d)]"
    using gateway_requests
      [of env "AssessRisk description (case context of None \<Rightarrow> [] | Some d \<Rightarrow> d)" w] g
    by simp
  have same: "assess_risk env now description None w =
      assess_risk env now description (Some []) w"
    by (simp add: assess_risk_def or_empty_def)
  have reqs: "requests (snd (assess_risk env now description context w)) =
      requests w @
      [assess_legal_risk_request env description (case context of None \<Rightarrow> [] | Some d \<Rightarrow> d)]"
    using sent by (cases r) (simp_all add: assess_risk_def oe g logger_error_def)
  have res: "fst (assess_risk env now description context w) =
     (case fst (assess_legal_risk env description
                  (case context of None \<Rightarrow> [] | Some d \<Rightarrow> d) w) of
        Return risk_assessment \<Rightarrow>
          Return (PyDict [(''risk_assessment'', risk_assessment),
                          (''assessed_at'', PyStr now)])
      | Raise e \<Rightarrow> Raise (HTTPException 500 ''Risk assessment failed'')
      | Abort b \<Rightarrow> Abort b)"
    by (cases r) (simp_all add: assess_risk_def oe g)
  have st: "snd (assess_risk env now description None w) =
      snd (assess_risk env now' description (Some []) w)"
    by (cases "assess_legal_risk env description [] w")
       (simp add: assess_risk_def or_empty_def split: outcome.splits)
  from same reqs res st show ?thesis by (intro conjI)
qed

theorem assess_route_context_default_witness:
  "assess_risk (stub_env (Return (Some ''[1, 2]''))) ''2026-01-01T00:00:00'' ''Late delivery''
     None w0 =
   assess_risk (stub_env (Return (Some ''[1, 2]''))) ''2026-01-01T00:00:00'' ''Late delivery''
     (Some []) w0 \<and>
   fst (assess_risk (stub_env (Return (Some ''[1, 2]''))) ''2026-01-01T00:00:00''
          ''Late delivery'' None w0) =
     Return (PyDict [(''risk_assessment'', PyList [PyInt 1, PyInt 2]),
                     (''assessed_at'', PyStr ''2026-01-01T00:00:00'')])"
proof -
  have same: "assess_risk (stub_env (Return (Some ''[1, 2]''))) ''2026-01-01T00:00:00''
      ''Late delivery'' None w0 =
    assess_risk (stub_env (Return (Some ''[1, 2]''))) ''2026-01-01T00:00:00''
      ''Late delivery'' (Some []) w0"
    using
      assess_route_context_default
        [of "stub_env (Return (Some ''[1, 2]''))" "''2026-01-01T00:00:00''"
            "''Late delivery''" w0 None "''2026-01-01T00:00:00''"]
    by (rule conjunct1)
  have result: "fst (assess_risk (stub_env (Return (Some ''[1, 2]''))) ''2026-01-01T00:00:00''
      ''Late delivery'' None w0) =
    Return (PyDict [(''risk_assessment'', PyList [PyInt 1, PyInt 2]),
                    (''assessed_at'', PyStr ''2026-01-01T00:00:00'')])"
    by (simp add: assess_risk_def assess_legal_risk_def or_empty_def stub_env_def then_do_def
          Let_def loads_content_text loads_list)
  show ?thesis using same result by (rule conjI)
qed

text \<open>
  Claim C10 as stated fails: with the same description and the same model reply, the call
  with \<^verbatim>\<open>context=None\<close> and the call with \<^verbatim>\<open>context={}\<close>, one second apart, give results
  that differ in \<open>assessed_at\<close>.
\<close>

theorem assess_route_clock_differs:
  "fst (assess_risk (stub_env (Return (Some ''[1, 2]''))) ''2026-01-01T00:00:00''
          ''Late delivery'' None w0) =
     Return (PyDict [(''risk_assessment'', PyList [PyInt 1, PyInt 2]),
                     (''assessed_at'', PyStr ''2026-01-01T00:00:00'')]) \<and>
   fst (assess_risk (stub_env (Return (Some ''[1, 2]''))) ''2026-01-01T00:00:01''
          ''Late delivery'' (Some []) w0) =
     Return (PyDict [(''risk_assessment'', PyList [PyInt 1, PyInt 2]),
                     (''assessed_at'', PyStr ''2026-01-01T00:00:01'')]) \<and>
   fst (assess_risk (stub_env (Return (Some ''[1, 2]''))) ''2026-01-01T00:00:00''
          ''Late delivery'' None w0) \<noteq>
   fst (assess_risk (stub_env (Return (Some ''[1, 2]''))) ''2026-01-01T00:00:01''
          ''Late delivery'' (Some []) w0)"
  by (simp add: assess_risk_def assess_legal_risk_def or_empty_def stub_env_def then_do_def
        Let_def loads_content_text loads_list)

end
